theory Spec2Isabelle
  imports Complex_Main "HOL-Library.Signed_Division"
begin

section \<open>Arithmetic of the sketch\<close>

text \<open>
  The sketch computes with C \<open>int\<close> and \<open>float\<close>.

  \<^item> \<open>int\<close> values are modelled as \<^typ>\<open>int\<close>. C's \<open>/\<close> and \<open>%\<close> truncate towards zero;
    they are \<open>sdiv\<close> and \<open>smod\<close> here, not HOL's flooring \<open>div\<close> and \<open>mod\<close>. Signed
    overflow is undefined in C. The width of \<open>int\<close> is the board's (16 bits on the AVR
    boards, 32 on the ESP32) and is a parameter, \<open>int_bits\<close>, of the functions that
    check for it: in \<open>getHourAngle\<close> an integer product or sum outside the range of
    \<open>int\<close> is the fault \<open>IntegerOverflow\<close>. In \<open>dayOfYear\<close>, \<open>isDST\<close> and \<open>getGamma\<close> the
    integers are unbounded; the results about them are stated for months and days where
    nothing can overflow, or do not depend on the value of the sum.
  \<^item> \<open>float\<close> values are modelled as \<^typ>\<open>real\<close>: the formulas are evaluated exactly,
    rounding, infinities and NaN are not modelled. Where the exact formula is undefined
    (a zero divisor, \<open>asin\<close> outside \<open>[-1, 1]\<close>, \<open>tan\<close> at a pole), and where an array
    index is out of range, the model of \<open>computeSolar\<close> returns a \<open>fault\<close>. The program
    stores every intermediate value in a binary32 \<open>float\<close>, and at some inputs the
    rounding decides the outcome; what the program does there is stated below as
    facts about the binary32 numbers involved, written as fractions.
\<close>

datatype fault = IndexOutOfBounds | DivisionByZero | DomainError | IntegerOverflow

definition int_fits :: "nat \<Rightarrow> int \<Rightarrow> bool" where
  "int_fits int_bits k = (- (2 ^ (int_bits - 1)) \<le> k \<and> k < 2 ^ (int_bits - 1))"

subsection \<open>Day of the year\<close>

text \<open>
  \<^verbatim>\<open>
  int dayOfYear(int y, int m, int d) {
    static const int daysBeforeMonth[] = {
      0, 31, 59, 90, 120, 151, 181, 212, 243, 273, 304, 334
    };
    int doy = daysBeforeMonth[m - 1] + d;
    if (m > 2 && ((y % 4 == 0 && y % 100 != 0) || (y % 400 == 0))) doy += 1;
    return doy;
  }
  \<close>
  The array read is checked: an index outside \<open>0..11\<close> is a fault of the model.
\<close>

definition daysBeforeMonth :: "int list" where
  "daysBeforeMonth = [0, 31, 59, 90, 120, 151, 181, 212, 243, 273, 304, 334]"

definition dayOfYear :: "int \<Rightarrow> int \<Rightarrow> int \<Rightarrow> fault + int" where
  "dayOfYear y m d =
     (if 0 \<le> m - 1 \<and> m - 1 < int (length daysBeforeMonth) then
        (let doy = daysBeforeMonth ! nat (m - 1) + d in
         if m > 2 \<and> ((y smod 4 = 0 \<and> y smod 100 \<noteq> 0) \<or> (y smod 400 = 0))
         then Inr (doy + 1) else Inr doy)
      else Inl IndexOutOfBounds)"

text \<open>
  The specification's wording of the same function: the cumulative table, plus one after
  February of a Gregorian leap year (divisible by 4 and (not divisible by 100, or divisible
  by 400)).
\<close>

definition gregorian_leap :: "int \<Rightarrow> bool" where
  "gregorian_leap y = (4 dvd y \<and> (\<not> 100 dvd y \<or> 400 dvd y))"

definition dayOfYear_spec :: "int \<Rightarrow> int \<Rightarrow> int \<Rightarrow> int" where
  "dayOfYear_spec y m d =
     [0, 31, 59, 90, 120, 151, 181, 212, 243, 273, 304, 334] ! nat (m - 1) + d
       + (if m > 2 \<and> gregorian_leap y then 1 else 0)"

subsection \<open>Daylight saving time\<close>

text \<open>
  \<^verbatim>\<open>
  bool isDST(int year, int month, int day, int hour) {
    if (month < 3 || month > 11) return false;
    if (month > 3 && month < 11) return true;

    // Zeller's Congruence for day of week (0 = Sunday)
    int y = (month < 3) ? year - 1 : year;
    int m = (month < 3) ? month + 12 : month;
    int K = y % 100;
    int J = y / 100;
    int h = (day + 13 * (m + 1) / 5 + K + K / 4 + J / 4 + 5 * J) % 7;
    int weekday = (h + 6) % 7; // Adjust to 0 = Sunday

    if (month == 3) {
      int secondSunday = 14 - weekday;
      return (day > secondSunday) || (day == secondSunday && hour >= 2);
    }
    if (month == 11) {
      int firstSunday = 7 - weekday;
      return (day < firstSunday) || (day == firstSunday && hour < 2);
    }
    return false;
  }
  \<close>
  The local \<open>weekday\<close> is a definition of its own, so that statements can name it. It is
  computed from the \<open>day\<close> that was passed in.
\<close>

definition weekday :: "int \<Rightarrow> int \<Rightarrow> int \<Rightarrow> int" where
  "weekday year month day =
     (let y = (if month < 3 then year - 1 else year);
          m = (if month < 3 then month + 12 else month);
          K = y smod 100;
          J = y sdiv 100;
          h = (day + (13 * (m + 1)) sdiv 5 + K + K sdiv 4 + J sdiv 4 + 5 * J) smod 7
      in (h + 6) smod 7)"

definition secondSunday :: "int \<Rightarrow> int \<Rightarrow> int \<Rightarrow> int" where
  "secondSunday year month day = 14 - weekday year month day"

definition firstSunday :: "int \<Rightarrow> int \<Rightarrow> int \<Rightarrow> int" where
  "firstSunday year month day = 7 - weekday year month day"

definition isDST :: "int \<Rightarrow> int \<Rightarrow> int \<Rightarrow> int \<Rightarrow> bool" where
  "isDST year month day hour =
     (if month < 3 \<or> month > 11 then False
      else if month > 3 \<and> month < 11 then True
      else if month = 3 then
        (day > secondSunday year month day
          \<or> (day = secondSunday year month day \<and> hour \<ge> 2))
      else if month = 11 then
        (day < firstSunday year month day
          \<or> (day = firstSunday year month day \<and> hour < 2))
      else False)"

text \<open>
  The caller's choice of the offset, in \<open>loop\<close>:
  \<^verbatim>\<open>int tz_offset = isDST(year, month, day, hour) ? -5 : -6; // CDT or CST\<close>
\<close>

definition loop_tz_offset :: "int \<Rightarrow> int \<Rightarrow> int \<Rightarrow> int \<Rightarrow> int" where
  "loop_tz_offset year month day hour = (if isDST year month day hour then - 5 else - 6)"

subsection \<open>Constants and library functions\<close>

text \<open>
  \<^verbatim>\<open>
  const float latitude = 37.7272;
  const float longitude = -89.2168;
  #define DEG_TO_RAD 0.0174532925
  #define RAD_TO_DEG 57.2957795131
  \<close>
  The sketch defines its own conversion factors; they are decimal truncations of
  \<open>\<pi>/180\<close> and \<open>180/\<pi>\<close>.
\<close>

definition latitude :: real where
  "latitude = 37.7272"

definition longitude :: real where
  "longitude = - 89.2168"

definition DEG_TO_RAD :: real where
  "DEG_TO_RAD = 0.0174532925"

definition RAD_TO_DEG :: real where
  "RAD_TO_DEG = 57.2957795131"

text \<open>
  Modelled from the spec: the macro \<open>PI\<close> comes from \<open>Arduino.h\<close>, which is not part of
  the sources; the specification writes the factor of \<open>getGamma\<close> as \<open>2\<pi>/365\<close>.
\<close>

definition PI :: real where
  "PI = pi"

text \<open>
  The functions of \<open>math.h\<close> on exact reals. \<open>sin\<close>, \<open>cos\<close> and \<open>exp\<close> are HOL's.
  \<open>asin\<close> is undefined outside \<open>[-1, 1]\<close> and \<open>tan\<close> at the zeros of the cosine: both
  report a \<open>DomainError\<close> there. \<open>atan2\<close> is total, with the value 0 at the origin, and
  \<open>fmod x y\<close> is \<open>x - n * y\<close> where \<open>n\<close> is the quotient \<open>x / y\<close> truncated towards zero,
  so that the result has the sign of \<open>x\<close>.
\<close>

definition asin :: "real \<Rightarrow> fault + real" where
  "asin x = (if - 1 \<le> x \<and> x \<le> 1 then Inr (arcsin x) else Inl DomainError)"

definition tangent :: "real \<Rightarrow> fault + real" where
  "tangent x = (if cos x = 0 then Inl DomainError else Inr (tan x))"

definition atan2 :: "real \<Rightarrow> real \<Rightarrow> real" where
  "atan2 y x =
     (if 0 < x then arctan (y / x)
      else if x < 0 then (if 0 \<le> y then arctan (y / x) + pi else arctan (y / x) - pi)
      else if 0 < y then pi / 2
      else if y < 0 then - (pi / 2)
      else 0)"

definition trunc :: "real \<Rightarrow> int" where
  "trunc r = (if 0 \<le> r then \<lfloor>r\<rfloor> else \<lceil>r\<rceil>)"

definition fmod :: "real \<Rightarrow> real \<Rightarrow> fault + real" where
  "fmod x y = (if y = 0 then Inl DomainError else Inr (x - real_of_int (trunc (x / y)) * y))"

subsection \<open>Solar geometry\<close>

text \<open>
  \<^verbatim>\<open>
  float getGamma(int doy, int hour) {
    return 2.0 * PI / 365.0 * (doy - 1 + (hour - 12) / 24.0);
  }

  float getDeclination(float gamma) {
    return 0.006918
         - 0.399912 * cos(gamma)
         + 0.070257 * sin(gamma)
         - 0.006758 * cos(2 * gamma)
         + 0.000907 * sin(2 * gamma)
         - 0.002697 * cos(3 * gamma)
         + 0.00148  * sin(3 * gamma);
  }

  float getHourAngle(float gamma, float lon, int hour, int minute, int second, int tz_offset) {
    float eq_time = 229.18 * (0.000075
                  + 0.001868 * cos(gamma)
                  - 0.032077 * sin(gamma)
                  - 0.014615 * cos(2 * gamma)
                  - 0.040849 * sin(2 * gamma));
    float time_offset = eq_time + 4 * lon - 60 * tz_offset;
    float true_solar_time = hour * 60 + minute + second / 60.0 + time_offset;
    float ha_deg = true_solar_time / 4.0 - 180;
    return ha_deg * DEG_TO_RAD;
  }
  \<close>
  Every divisor here is a non-zero literal. \<open>(hour - 12) / 24.0\<close> and \<open>second / 60.0\<close>
  are divisions of reals; \<open>hour * 60 + minute\<close> and \<open>60 * tz_offset\<close> are integer
  expressions converted afterwards, and \<open>getHourAngle\<close> reports \<open>IntegerOverflow\<close> when
  \<open>60 * tz_offset\<close>, \<open>hour * 60\<close> or \<open>hour * 60 + minute\<close> is outside the range of \<open>int\<close>.
\<close>

definition getGamma :: "int \<Rightarrow> int \<Rightarrow> real" where
  "getGamma doy hour =
     2.0 * PI / 365.0 * (real_of_int (doy - 1) + real_of_int (hour - 12) / 24.0)"

definition getDeclination :: "real \<Rightarrow> real" where
  "getDeclination gamma =
     0.006918
       - 0.399912 * cos gamma
       + 0.070257 * sin gamma
       - 0.006758 * cos (2 * gamma)
       + 0.000907 * sin (2 * gamma)
       - 0.002697 * cos (3 * gamma)
       + 0.00148 * sin (3 * gamma)"

definition getHourAngle ::
  "nat \<Rightarrow> real \<Rightarrow> real \<Rightarrow> int \<Rightarrow> int \<Rightarrow> int \<Rightarrow> int \<Rightarrow> fault + real" where
  "getHourAngle int_bits gamma lon hour minute second tz_offset =
     (if int_fits int_bits (60 * tz_offset) \<and> int_fits int_bits (hour * 60)
         \<and> int_fits int_bits (hour * 60 + minute)
      then
        (let eq_time = 229.18 * (0.000075
                         + 0.001868 * cos gamma
                         - 0.032077 * sin gamma
                         - 0.014615 * cos (2 * gamma)
                         - 0.040849 * sin (2 * gamma));
             time_offset = eq_time + 4 * lon - real_of_int (60 * tz_offset);
             true_solar_time =
               real_of_int (hour * 60 + minute) + real_of_int second / 60.0 + time_offset;
             ha_deg = true_solar_time / 4.0 - 180
         in Inr (ha_deg * DEG_TO_RAD))
      else Inl IntegerOverflow)"

text \<open>
  The specification's wording of the hour angle, step by step.
\<close>

definition eqTime_spec :: "real \<Rightarrow> real" where
  "eqTime_spec \<gamma> =
     229.18 * (0.000075 + 0.001868 * cos \<gamma> - 0.032077 * sin \<gamma>
                - 0.014615 * cos (2 * \<gamma>) - 0.040849 * sin (2 * \<gamma>))"

definition timeOffset_spec :: "real \<Rightarrow> real \<Rightarrow> int \<Rightarrow> real" where
  "timeOffset_spec \<gamma> lon utcOffset = eqTime_spec \<gamma> + 4 * lon - 60 * real_of_int utcOffset"

definition trueSolarTime_spec :: "real \<Rightarrow> real \<Rightarrow> int \<Rightarrow> int \<Rightarrow> int \<Rightarrow> int \<Rightarrow> real" where
  "trueSolarTime_spec \<gamma> lon hour minute second utcOffset =
     real_of_int hour * 60 + real_of_int minute + real_of_int second / 60
       + timeOffset_spec \<gamma> lon utcOffset"

subsection \<open>Irradiance\<close>

text \<open>
  \<^verbatim>\<open>
  float getIrradiance(float elevation_deg) {
    if (elevation_deg <= 0) return 0;
    float zenith_rad = (90.0 - elevation_deg) * DEG_TO_RAD;
    return 1098.0 * cos(zenith_rad) * exp(-0.059 / cos(zenith_rad));
  }
  \<close>
  Division of floats does not trap in C, so the function is total, as in the source.
  Over the reals the quotient has no value where \<open>cos(zenith_rad)\<close> is 0 (HOL's
  division returns 0 there); \<open>getIrradiance_fault\<close> says when the call divides by zero,
  and callers of the model check it before the call.
\<close>

definition getIrradiance :: "real \<Rightarrow> real" where
  "getIrradiance elevation_deg =
     (if elevation_deg \<le> 0 then 0
      else
        (let zenith_rad = (90.0 - elevation_deg) * DEG_TO_RAD in
         1098.0 * cos zenith_rad * exp (- 0.059 / cos zenith_rad)))"

definition getIrradiance_fault :: "real \<Rightarrow> bool" where
  "getIrradiance_fault elevation_deg =
     (0 < elevation_deg \<and> cos ((90.0 - elevation_deg) * DEG_TO_RAD) = 0)"

subsection \<open>The main computation\<close>

text \<open>
  \<^verbatim>\<open>
  void computeSolar(float lat, float lon, int year, int month, int day,
                    int hour, int minute, int second, int tz_offset) {
    int doy = dayOfYear(year, month, day);
    float gamma = getGamma(doy, hour);
    float decl = getDeclination(gamma);
    float ha = getHourAngle(gamma, lon, hour, minute, second, tz_offset);
    float lat_rad = lat * DEG_TO_RAD;

    // Elevation
    float sin_elev = sin(lat_rad) * sin(decl) + cos(lat_rad) * cos(decl) * cos(ha);
    float elev_rad = asin(sin_elev);
    float elevation = elev_rad * RAD_TO_DEG;

    // Azimuth from North
    float y = sin(ha);
    float x = cos(ha) * sin(lat_rad) - tan(decl) * cos(lat_rad);
    float az_rad = atan2(y, x);
    float azimuth = fmod((az_rad * RAD_TO_DEG + 180.0), 360.0);

    float irradiance = getIrradiance(elevation);

    // Output
    Serial.println("==================================");
    Serial.print("Elevation:   "); Serial.print(elevation, 2); Serial.println(" [deg]");
    Serial.print("Azimuth:     "); Serial.print(azimuth, 2); Serial.println(" [deg] (from North)");
    Serial.print("Irradiance:  "); Serial.print(irradiance, 2); Serial.println(" W/m[2]");
    Serial.print("Time Zone:   UTC"); Serial.println(tz_offset);
  }
  \<close>
  (\<open>[deg]\<close> and \<open>[2]\<close> stand for the degree sign and the superscript two of the source,
  two bytes each in UTF-8.)

  The function returns nothing: what it produces is what it prints. A fault of
  \<open>dayOfYear\<close>, \<open>getHourAngle\<close>, \<open>asin\<close>, \<open>tan\<close> or \<open>fmod\<close>, or a zero divisor in
  \<open>getIrradiance\<close>, ends the model's run with that fault. The state of the
  board is the text sent to \<open>Serial\<close> so far and the line buffer \<open>input\<close> that \<open>loop\<close>
  keeps between calls; \<open>computeSolar\<close> takes the state and returns the new one.
  \<open>Serial.print(v, 2)\<close> of a float is recorded as the value with its number of decimals.
\<close>

datatype serial_item = Text string | Float real nat | Integer int | Newline

record board =
  serial :: "serial_item list"
  input :: string

definition degree_sign :: string where
  "degree_sign = [CHR 0xC2, CHR 0xB0]"

definition superscript_two :: string where
  "superscript_two = [CHR 0xC2, CHR 0xB2]"

definition report :: "real \<Rightarrow> real \<Rightarrow> real \<Rightarrow> int \<Rightarrow> serial_item list" where
  "report elevation azimuth irradiance tz_offset =
     [Text ''=================================='', Newline,
      Text ''Elevation:   '', Float elevation 2, Text ('' '' @ degree_sign), Newline,
      Text ''Azimuth:     '', Float azimuth 2, Text ('' '' @ degree_sign @ '' (from North)''), Newline,
      Text ''Irradiance:  '', Float irradiance 2, Text ('' W/m'' @ superscript_two), Newline,
      Text ''Time Zone:   UTC'', Integer tz_offset, Newline]"

definition computeSolar ::
  "nat \<Rightarrow> real \<Rightarrow> real \<Rightarrow> int \<Rightarrow> int \<Rightarrow> int \<Rightarrow> int \<Rightarrow> int \<Rightarrow> int \<Rightarrow> int \<Rightarrow> board
     \<Rightarrow> fault + board" where
  "computeSolar int_bits lat lon year month day hour minute second tz_offset b =
     (case dayOfYear year month day of
        Inl f \<Rightarrow> Inl f
      | Inr doy \<Rightarrow>
         (let gamma = getGamma doy hour;
              decl = getDeclination gamma
          in case getHourAngle int_bits gamma lon hour minute second tz_offset of
               Inl f \<Rightarrow> Inl f
             | Inr ha \<Rightarrow>
                (let lat_rad = lat * DEG_TO_RAD;
                     sin_elev = sin lat_rad * sin decl + cos lat_rad * cos decl * cos ha
                 in case asin sin_elev of
                      Inl f \<Rightarrow> Inl f
                    | Inr elev_rad \<Rightarrow>
                       (let elevation = elev_rad * RAD_TO_DEG;
                            y = sin ha
                        in case tangent decl of
                             Inl f \<Rightarrow> Inl f
                           | Inr tan_decl \<Rightarrow>
                              (let x = cos ha * sin lat_rad - tan_decl * cos lat_rad;
                                   az_rad = atan2 y x
                               in case fmod (az_rad * RAD_TO_DEG + 180.0) 360.0 of
                                    Inl f \<Rightarrow> Inl f
                                  | Inr azimuth \<Rightarrow>
                                     (if getIrradiance_fault elevation then Inl DivisionByZero
                                      else
                                        (let irradiance = getIrradiance elevation in
                                         Inr (b\<lparr>serial := serial b
                                                 @ report elevation azimuth irradiance
                                                     tz_offset\<rparr>))))))))"

section \<open>Calendar results\<close>

lemma smod_eq_0_iff_dvd: "(k :: int) smod l = 0 \<longleftrightarrow> l dvd k"
proof -
  have "k smod l = 0 \<longleftrightarrow> \<bar>k\<bar> mod \<bar>l\<bar> = 0"
    by (auto simp add: signed_modulo_int_def sgn_if)
  also have "\<dots> \<longleftrightarrow> l dvd k"
    by (simp add: dvd_eq_mod_eq_0 [symmetric])
  finally show ?thesis .
qed

lemma leap_test_eq:
  "((y smod 4 = 0 \<and> y smod 100 \<noteq> 0) \<or> (y smod 400 = 0)) = gregorian_leap y"
proof -
  have "400 dvd y \<Longrightarrow> 4 dvd y"
    by (rule dvd_trans [of 4 400 y]) simp_all
  then show ?thesis
    by (auto simp add: smod_eq_0_iff_dvd gregorian_leap_def)
qed

lemma month_cases:
  assumes "1 \<le> (m :: int)" "m \<le> 12"
  shows "m = 1 \<or> m = 2 \<or> m = 3 \<or> m = 4 \<or> m = 5 \<or> m = 6
       \<or> m = 7 \<or> m = 8 \<or> m = 9 \<or> m = 10 \<or> m = 11 \<or> m = 12"
  using assms by arith

lemma dayOfYear_in_range:
  assumes "1 \<le> m" "m \<le> 12"
  shows "dayOfYear y m d = Inr (dayOfYear_spec y m d)"
proof -
  have idx: "0 \<le> m - 1 \<and> m - 1 < int (length daysBeforeMonth)"
    using assms by (simp add: daysBeforeMonth_def)
  show ?thesis
    using idx by (simp add: dayOfYear_def dayOfYear_spec_def Let_def leap_test_eq daysBeforeMonth_def)
qed

lemma smod_7_bounds: "- 6 \<le> (k :: int) smod 7 \<and> k smod 7 \<le> 6"
proof -
  have "0 \<le> \<bar>k\<bar> mod 7" "\<bar>k\<bar> mod 7 < 7"
    by simp_all
  then show ?thesis
    by (auto simp add: signed_modulo_int_def sgn_if)
qed

lemma weekday_bounds: "0 \<le> weekday year month day \<and> weekday year month day \<le> 6"
proof -
  define h where "h = (let y = (if month < 3 then year - 1 else year);
          m = (if month < 3 then month + 12 else month);
          K = y smod 100;
          J = y sdiv 100
      in (day + (13 * (m + 1)) sdiv 5 + K + K sdiv 4 + J sdiv 4 + 5 * J) smod 7)"
  have w: "weekday year month day = (h + 6) smod 7"
    by (simp add: weekday_def h_def Let_def)
  have "- 6 \<le> h"
    unfolding h_def Let_def using smod_7_bounds by blast
  then have nonneg: "0 \<le> h + 6"
    by simp
  then have "(h + 6) smod 7 = (h + 6) mod 7"
    by (simp add: signed_modulo_int_def sgn_if)
  then show ?thesis
    using w by simp
qed

lemma sdiv_nonneg: "0 \<le> k \<Longrightarrow> 0 \<le> l \<Longrightarrow> (k :: int) sdiv l = k div l"
  by (auto simp add: signed_divide_int_def sgn_if)

lemma smod_nonneg: "0 \<le> k \<Longrightarrow> 0 \<le> l \<Longrightarrow> (k :: int) smod l = k mod l"
  by (auto simp add: signed_modulo_int_def sgn_if)

lemma weekday_2025_samples:
  "weekday 2025 3 8 = 6" "weekday 2025 3 9 = 0" "weekday 2025 3 10 = 1"
  "weekday 2025 11 2 = 0" "weekday 2025 11 3 = 1"
  "weekday 2025 3 1 = 6" "weekday 2025 11 1 = 6"
  by (simp_all add: weekday_def sdiv_nonneg smod_nonneg)

text \<open>
  C1. The claim: \<open>isDST\<close> implements the U.S. boundary, so that for every hour \<open>h\<close>
  \<open>isDST(2025, 3, 9, h)\<close> holds iff \<open>h \<ge> 2\<close>, \<open>isDST(2025, 3, 8, h)\<close> is false,
  \<open>isDST(2025, 11, 2, h)\<close> holds iff \<open>h < 2\<close> and \<open>isDST(2025, 11, 3, h)\<close> is false.
  The code does otherwise on all four dates. It feeds the \<open>day\<close> it was given into
  Zeller's congruence, not the first of the month, so \<open>secondSunday\<close> and \<open>firstSunday\<close>
  move with the day asked about: on Sunday 9 March 2025 it answers false at every hour, on
  Saturday 8 March it answers true from 02:00 on, and on 2 and 3 November it answers true
  at every hour. The answer is not even monotone within March: true at noon on the 8th,
  false at noon on the 10th. The weekday function itself is right: 1 March and
  1 November 2025 are Saturdays (6), so the second Sunday of March is the 9th and the
  first Sunday of November is the 2nd.
\<close>

theorem isDST_2025_boundary_dates:
  "\<not> isDST 2025 3 9 h \<and> (isDST 2025 3 8 h \<longleftrightarrow> 2 \<le> h)
   \<and> isDST 2025 11 2 h \<and> isDST 2025 11 3 h
   \<and> isDST 2025 3 8 12 \<and> \<not> isDST 2025 3 10 12
   \<and> weekday 2025 3 1 = 6 \<and> weekday 2025 11 1 = 6"
  by (simp add: isDST_def secondSunday_def firstSunday_def weekday_2025_samples)

text \<open>
  C2. For every year \<open>y\<close>, month \<open>m\<close> in \<open>1..12\<close> and day \<open>d\<close> in \<open>1..31\<close>, \<open>dayOfYear\<close>
  returns the entry \<open>m - 1\<close> of the cumulative table plus \<open>d\<close>, plus one when \<open>m > 2\<close>
  and \<open>y\<close> is a Gregorian leap year; 1 January 2025 is day 1, 31 December 2025 is day
  365 and 31 December 2024 is day 366.
\<close>

theorem dayOfYear_matches_table:
  "(1 \<le> m \<and> m \<le> 12 \<and> 1 \<le> d \<and> d \<le> 31 \<longrightarrow> dayOfYear y m d = Inr (dayOfYear_spec y m d))
   \<and> dayOfYear 2025 1 1 = Inr 1
   \<and> dayOfYear 2025 12 31 = Inr 365
   \<and> dayOfYear 2024 12 31 = Inr 366"
  by (simp add: dayOfYear_in_range dayOfYear_spec_def gregorian_leap_def)

theorem dayOfYear_matches_table_witness:
  "(1::int) \<le> 3 \<and> (3::int) \<le> 12 \<and> (1::int) \<le> 15 \<and> (15::int) \<le> 31
   \<and> dayOfYear 2024 3 15 = Inr (dayOfYear_spec 2024 3 15)
   \<and> dayOfYear_spec 2024 3 15 = 75"
  using dayOfYear_matches_table [of 3 15 2024]
  by (simp add: dayOfYear_spec_def gregorian_leap_def)

text \<open>
  C6. For every year, day and hour, \<open>isDST\<close> is false when \<open>month < 3\<close> or \<open>month > 11\<close>
  and true when \<open>month\<close> is in \<open>4..10\<close>; the caller selects the offset \<open>-6\<close> when \<open>isDST\<close>
  is false and \<open>-5\<close> when it is true; the input \<open>2025,1,15,12,0,0\<close> gives false and \<open>-6\<close>.
\<close>

theorem isDST_outside_transition_months:
  "(month < 3 \<or> month > 11 \<longrightarrow> \<not> isDST year month day hour)
   \<and> (4 \<le> month \<and> month \<le> 10 \<longrightarrow> isDST year month day hour)
   \<and> (\<not> isDST year month day hour \<longrightarrow> loop_tz_offset year month day hour = - 6)
   \<and> (isDST year month day hour \<longrightarrow> loop_tz_offset year month day hour = - 5)
   \<and> \<not> isDST 2025 1 15 12
   \<and> loop_tz_offset 2025 1 15 12 = - 6"
  by (simp add: isDST_def loop_tz_offset_def)

theorem isDST_outside_transition_months_witness:
  "((1::int) < 3 \<or> (1::int) > 11) \<and> \<not> isDST 2025 1 15 12 \<and> loop_tz_offset 2025 1 15 12 = - 6
   \<and> (4::int) \<le> 6 \<and> (6::int) \<le> 10 \<and> isDST 2025 6 13 22 \<and> loop_tz_offset 2025 6 13 22 = - 5"
  using isDST_outside_transition_months [of 1 2025 15 12]
    isDST_outside_transition_months [of 6 2025 13 22]
  by simp

text \<open>
  C9. For every year and hour, \<open>isDST\<close> is false when \<open>month = 3\<close> and \<open>day \<le> 7\<close>, and
  false when \<open>month = 11\<close> and \<open>day > 7\<close>: the derived second Sunday of March is at least
  8 and the derived first Sunday of November is at most 7. The bounds hold whatever
  integer the sum inside Zeller's congruence is, since \<open>%\<close> by 7 lies in \<open>-6..6\<close>.
\<close>

theorem isDST_false_early_march_late_november:
  "(month = 3 \<and> day \<le> 7 \<longrightarrow> \<not> isDST year month day hour)
   \<and> (month = 11 \<and> day > 7 \<longrightarrow> \<not> isDST year month day hour)
   \<and> 8 \<le> secondSunday year month day
   \<and> firstSunday year month day \<le> 7"
  using weekday_bounds [of year month day]
  by (auto simp add: isDST_def secondSunday_def firstSunday_def)

theorem isDST_false_early_march_late_november_witness:
  "(3::int) = 3 \<and> (5::int) \<le> 7 \<and> \<not> isDST 2025 3 5 12
   \<and> (11::int) = 11 \<and> (20::int) > 7 \<and> \<not> isDST 2025 11 20 1"
  using isDST_false_early_march_late_november [of 3 5 2025 12]
    isDST_false_early_march_late_november [of 11 20 2025 1]
  by simp

text \<open>
  C10. For every year \<open>y\<close>, every month \<open>m\<close> in \<open>1..12\<close> and every day \<open>d\<close> in \<open>1..31\<close>,
  \<open>dayOfYear\<close> returns a value in \<open>1..366\<close>.
\<close>

theorem dayOfYear_between_1_and_366:
  assumes "1 \<le> m" "m \<le> 12" "1 \<le> d" "d \<le> 31"
  shows "\<exists>n. dayOfYear y m d = Inr n \<and> 1 \<le> n \<and> n \<le> 366"
proof -
  have eq: "dayOfYear y m d = Inr (dayOfYear_spec y m d)"
    using assms by (simp add: dayOfYear_in_range)
  have "1 \<le> dayOfYear_spec y m d \<and> dayOfYear_spec y m d \<le> 366"
    using month_cases [OF assms(1,2)] assms(3,4)
    by (elim disjE) (simp_all add: dayOfYear_spec_def)
  then show ?thesis
    using eq by simp
qed

theorem dayOfYear_between_1_and_366_witness:
  "(1::int) \<le> 12 \<and> (12::int) \<le> 12 \<and> (1::int) \<le> 31 \<and> (31::int) \<le> 31
   \<and> (\<exists>n. dayOfYear 2024 12 31 = Inr n \<and> 1 \<le> n \<and> n \<le> 366)"
  using dayOfYear_between_1_and_366 [of 12 31 2024]
  by simp

section \<open>Results on the solar computation\<close>

subsection \<open>Bounds for \<open>\<pi>\<close>\<close>

text \<open>
  The conversion factors and the binary32 neighbours of \<open>\<pi>/2\<close> are compared with \<open>\<pi>\<close>
  below. The bounds come from Machin's formula and the alternating series of the
  arctangent, whose partial sums enclose the limit.
\<close>

lemma arctan_between_partial_sums:
  fixes x :: real
  assumes "0 < x" "x \<le> 1"
  shows "(\<Sum>k<2 * n. (- 1) ^ k * (1 / real (k * 2 + 1) * x ^ (k * 2 + 1))) \<le> arctan x
       \<and> arctan x \<le> (\<Sum>k<2 * n + 1. (- 1) ^ k * (1 / real (k * 2 + 1) * x ^ (k * 2 + 1)))"
proof -
  let ?a = "\<lambda>k. 1 / real (k * 2 + 1) * x ^ (k * 2 + 1)"
  have small: "\<bar>x\<bar> \<le> 1"
    using assms by simp
  have first: "0 < ?a 0"
    using assms by simp
  have "(\<Sum>i. (- 1) ^ i * ?a i)
      \<in> {\<Sum>i<2 * n. (- 1) ^ i * ?a i .. \<Sum>i<2 * n + 1. (- 1) ^ i * ?a i}"
    using summable_Leibniz(2) [OF zeroseq_arctan_series [OF small] monoseq_arctan_series [OF small]]
      first
    by blast
  then show ?thesis
    using arctan_series [OF small] by simp
qed

lemma pi_lower: "3.1415926535889 < pi"
proof -
  have a: "(\<Sum>k<10. (- 1) ^ k * (1 / real (k * 2 + 1) * (1 / 5) ^ (k * 2 + 1)))
      \<le> arctan (1 / 5 :: real)"
    using arctan_between_partial_sums [of "1 / 5" 5] by simp
  have b: "arctan (1 / 239 :: real)
      \<le> (\<Sum>k<3. (- 1) ^ k * (1 / real (k * 2 + 1) * (1 / 239) ^ (k * 2 + 1)))"
    using arctan_between_partial_sums [of "1 / 239" 1] by simp
  have "pi = 16 * arctan (1 / 5) - 4 * arctan (1 / 239)"
    using machin by simp
  then show ?thesis
    using a b by (simp add: eval_nat_numeral)
qed

lemma pi_upper: "pi < 3.14159266"
proof -
  have a: "arctan (1 / 5 :: real)
      \<le> (\<Sum>k<7. (- 1) ^ k * (1 / real (k * 2 + 1) * (1 / 5) ^ (k * 2 + 1)))"
    using arctan_between_partial_sums [of "1 / 5" 3] by simp
  have b: "(\<Sum>k<2. (- 1) ^ k * (1 / real (k * 2 + 1) * (1 / 239) ^ (k * 2 + 1)))
      \<le> arctan (1 / 239 :: real)"
    using arctan_between_partial_sums [of "1 / 239" 1] by simp
  have "pi = 16 * arctan (1 / 5) - 4 * arctan (1 / 239)"
    using machin by simp
  then show ?thesis
    using a b by (simp add: eval_nat_numeral)
qed

text \<open>
  \<open>DEG_TO_RAD\<close> is below \<open>\<pi>/180\<close>, so ninety degrees convert to less than a right angle.
  \<open>RAD_TO_DEG\<close> is above \<open>180/\<pi>\<close>, so a right angle converts to more than ninety
  degrees.
\<close>

lemma right_angle_below_half_pi: "90 * DEG_TO_RAD < pi / 2"
  using pi_lower by (simp add: DEG_TO_RAD_def)


subsection \<open>The irradiance just above the horizon\<close>

lemma cos_zenith_pos:
  assumes "0 < e" "e \<le> 180"
  shows "0 < cos ((90 - e) * DEG_TO_RAD)"
proof (rule cos_gt_zero_pi)
  have "(90 - e) * DEG_TO_RAD < 90 * DEG_TO_RAD"
    using assms(1) by (simp add: DEG_TO_RAD_def)
  then show "(90 - e) * DEG_TO_RAD < pi / 2"
    using right_angle_below_half_pi by linarith
  have "- (90 * DEG_TO_RAD) \<le> (90 - e) * DEG_TO_RAD"
    using assms(2) by (simp add: DEG_TO_RAD_def)
  then show "- (pi / 2) < (90 - e) * DEG_TO_RAD"
    using right_angle_below_half_pi by linarith
qed


text \<open>
  The binary32 number \<open>13176795 / 2\<^sup>2\<^sup>3\<close> (\<open>0x1.921fb6p+0\<close>) is the first one above \<open>\<pi>/2\<close>.
  Its cosine is negative and smaller than \<open>10\<^sup>-\<^sup>7\<close> in absolute value.
\<close>

lemma cos_float_above_half_pi:
  "cos (13176795 / 2 ^ 23 :: real) < 0 \<and> - (1 / 10 ^ 7) < cos (13176795 / 2 ^ 23 :: real)"
proof -
  define d :: real where "d = 13176795 / 2 ^ 23 - pi / 2"
  have d_pos: "0 < d"
    using pi_upper by (simp add: d_def)
  have d_small: "d < 1 / 10 ^ 7"
    using pi_lower by (simp add: d_def)
  have "d < 1"
    using d_small by simp
  then have "d < pi"
    using pi_ge_two by linarith
  then have sin_pos: "0 < sin d"
    using d_pos by (simp add: sin_gt_zero)
  have sin_small: "sin d \<le> d"
    using d_pos by (simp add: sin_x_le_x)
  have "cos (13176795 / 2 ^ 23 :: real) = cos (d + pi / 2)"
    by (simp add: d_def)
  also have "\<dots> = - sin d"
    by (simp add: cos_add)
  finally have "cos (13176795 / 2 ^ 23 :: real) = - sin d" .
  moreover have "sin d < 1 / 10 ^ 7"
    using sin_small d_small by linarith
  ultimately show ?thesis
    using sin_pos by simp
qed

lemma exp_above_double_range:
  assumes "1024 < (t :: real)"
  shows "2 ^ 1024 < exp t"
proof -
  have "(2 :: real) \<le> exp 1"
    using exp_ge_add_one_self [of "1 :: real"] by simp
  then have "(2 :: real) ^ 1024 \<le> exp 1 ^ 1024"
    by (rule power_mono) simp
  also have "\<dots> = exp (1024 :: real)"
    using exp_of_nat_mult [of 1024 "1 :: real"] by simp
  also have "\<dots> < exp t"
    using assms by simp
  finally show ?thesis .
qed

text \<open>
  C3. The claim: for every \<open>elevation_deg \<le> 0\<close> \<open>getIrradiance\<close> returns 0, for every
  \<open>elevation_deg > 0\<close> it returns \<open>1098 \<cdot> cos(zenith) \<cdot> exp(-0.059 / cos(zenith))\<close> with
  \<open>zenith = (90 - elevation_deg)\<close> in radians, and \<open>getIrradiance(90) = 1098 \<cdot> exp(-0.059)\<close>.
  The code breaks the middle part just above the horizon. At \<open>elevation_deg = 2\<^sup>-\<^sup>2\<^sup>1\<close>
  the exact zenith \<open>(90 - 2\<^sup>-\<^sup>2\<^sup>1) \<cdot> DEG_TO_RAD\<close> lies within half a binary32 step, \<open>2\<^sup>-\<^sup>2\<^sup>4\<close>, of
  \<open>13176795 / 2\<^sup>2\<^sup>3\<close>, which is therefore the value that \<open>float zenith_rad\<close> holds. That
  number is above \<open>\<pi>/2\<close>: its cosine is negative, the quotient \<open>-0.059 / cos(zenith_rad)\<close>
  is above 1024 and its exponential is above \<open>2\<^sup>1\<^sup>0\<^sup>2\<^sup>4\<close>, beyond every finite \<open>double\<close>, so
  \<open>exp\<close> returns infinity and the product returned is minus infinity. The formula of
  the claim has a positive value at this elevation.
\<close>

theorem getIrradiance_float_zenith_beyond_right_angle:
  "\<bar>13176795 / 2 ^ 23 - (90 - 1 / 2 ^ 21) * DEG_TO_RAD\<bar> < 1 / 2 ^ 24
   \<and> pi / 2 < 13176795 / 2 ^ 23
   \<and> cos (13176795 / 2 ^ 23 :: real) < 0
   \<and> 2 ^ 1024 < exp (- 0.059 / cos (13176795 / 2 ^ 23 :: real))
   \<and> 0 < 1098 * cos ((90 - 1 / 2 ^ 21) * DEG_TO_RAD)
           * exp (- 0.059 / cos ((90 - 1 / 2 ^ 21) * DEG_TO_RAD))"
proof -
  have near: "\<bar>13176795 / 2 ^ 23 - (90 - 1 / 2 ^ 21) * DEG_TO_RAD\<bar> < 1 / 2 ^ 24"
    by (simp add: DEG_TO_RAD_def)
  have above: "pi / 2 < 13176795 / 2 ^ 23"
    using pi_upper by simp
  define c :: real where "c = cos (13176795 / 2 ^ 23 :: real)"
  have c_neg: "c < 0" and c_small: "- (1 / 10 ^ 7) < c"
    using cos_float_above_half_pi by (simp_all add: c_def)
  have neg_c: "0 < - c"
    using c_neg by simp
  have "1024 * (- c) < 0.059"
    using c_small by simp
  then have "1024 < 0.059 / (- c)"
    by (simp only: pos_less_divide_eq [OF neg_c])
  moreover have "0.059 / (- c) = - 0.059 / c"
    by simp
  ultimately have "1024 < - 0.059 / c"
    by simp
  then have over: "2 ^ 1024 < exp (- 0.059 / c)"
    by (rule exp_above_double_range)
  have "0 < cos ((90 - 1 / 2 ^ 21) * DEG_TO_RAD)"
    by (rule cos_zenith_pos) simp_all
  then have claimed: "0 < 1098 * cos ((90 - 1 / 2 ^ 21) * DEG_TO_RAD)
           * exp (- 0.059 / cos ((90 - 1 / 2 ^ 21) * DEG_TO_RAD))"
    by simp
  show ?thesis
    using near above c_neg over claimed unfolding c_def by blast
qed

subsection \<open>The hour angle\<close>

text \<open>
  C4, as amended. For every \<open>gamma\<close>, longitude and second, and for every hour, minute
  and UTC offset for which the integer expressions \<open>60 \<cdot> utcOffset\<close>, \<open>hour \<cdot> 60\<close> and
  \<open>hour \<cdot> 60 + minute\<close> stay within the range of \<open>int\<close>, \<open>getHourAngle\<close> computes the
  equation of time from the four-term approximation, then
  \<open>timeOffset = eqTime + 4 \<cdot> longitude - 60 \<cdot> utcOffset\<close>, then the true solar time
  \<open>hour \<cdot> 60 + minute + second / 60 + timeOffset\<close> in minutes, and returns
  \<open>trueSolarTime / 4 - 180\<close> multiplied by the sketch's \<open>DEG_TO_RAD\<close>. This holds for
  every width of \<open>int\<close>; the arithmetic on \<open>float\<close> is exact in the model.
\<close>

theorem getHourAngle_formula:
  "int_fits int_bits (60 * utcOffset) \<and> int_fits int_bits (hour * 60)
     \<and> int_fits int_bits (hour * 60 + minute)
   \<longrightarrow> getHourAngle int_bits \<gamma> lon hour minute second utcOffset =
         Inr ((trueSolarTime_spec \<gamma> lon hour minute second utcOffset / 4 - 180) * DEG_TO_RAD)"
  by (simp add: getHourAngle_def trueSolarTime_spec_def timeOffset_spec_def eqTime_spec_def Let_def)

theorem getHourAngle_formula_witness:
  "int_fits 16 (60 * (- 5)) \<and> int_fits 16 (22 * 60) \<and> int_fits 16 (22 * 60 + 14)
   \<and> getHourAngle 16 0 longitude 22 14 0 (- 5) =
        Inr ((trueSolarTime_spec 0 longitude 22 14 0 (- 5) / 4 - 180) * DEG_TO_RAD)"
  using getHourAngle_formula
    [where int_bits = 16 and utcOffset = "- 5" and hour = 22 and minute = 14
       and \<gamma> = 0 and lon = longitude and second = 0]
  by (simp add: int_fits_def)

text \<open>
  The claim as it was stated, for every hour, fails where the product overflows: with
  a 32-bit \<open>int\<close>, \<open>hour = 35791395\<close> is a value of the type but \<open>hour * 60\<close> is not, and
  with a 16-bit \<open>int\<close> the same happens at \<open>hour = 547\<close>.
\<close>

theorem getHourAngle_overflow:
  "int_fits 32 35791395
   \<and> getHourAngle 32 0 0 35791395 0 0 0 = Inl IntegerOverflow
   \<and> getHourAngle 32 0 0 35791395 0 0 0
       \<noteq> Inr ((trueSolarTime_spec 0 0 35791395 0 0 0 / 4 - 180) * DEG_TO_RAD)
   \<and> int_fits 16 547
   \<and> getHourAngle 16 0 0 547 0 0 0 = Inl IntegerOverflow"
  by (simp add: getHourAngle_def int_fits_def)

subsection \<open>The ranges of elevation and azimuth\<close>





text \<open>
  The argument of \<open>asin\<close> in exact arithmetic: linear in \<open>cos c\<close>, and at the two ends
  \<open>cos c = 1\<close> and \<open>cos c = -1\<close> it is \<open>cos (a - b)\<close> and \<open>- cos (a + b)\<close>. It never leaves
  \<open>[-1, 1]\<close>; where the program finds it outside, rounding has put it there.
\<close>

lemma sin_elev_bounds:
  fixes a b c :: real
  shows "- 1 \<le> sin a * sin b + cos a * cos b * cos c
       \<and> sin a * sin b + cos a * cos b * cos c \<le> 1"
proof -
  define p where "p = cos a * cos b"
  define q where "q = sin a * sin b"
  have diff: "- 1 \<le> q + p" "q + p \<le> 1"
    using cos_ge_minus_one [of "a - b"] cos_le_one [of "a - b"]
    by (simp_all add: cos_diff p_def q_def)
  have sum: "- 1 \<le> q - p" "q - p \<le> 1"
    using cos_ge_minus_one [of "a + b"] cos_le_one [of "a + b"]
    by (simp_all add: cos_add p_def q_def)
  have "\<bar>p * cos c\<bar> \<le> \<bar>p\<bar>"
    using mult_left_le [of "\<bar>cos c\<bar>" "\<bar>p\<bar>"] by (simp add: abs_mult)
  then have "- 1 \<le> q + p * cos c \<and> q + p * cos c \<le> 1"
    using diff sum by linarith
  then show ?thesis
    by (simp add: p_def q_def)
qed








subsection \<open>Determinism\<close>

text \<open>
  C7. The computation is deterministic and stateless: for given latitude, longitude, date,
  time and offset there is one outcome, the same from every state of the board, which is
  either a fault or the items printed; a call appends these items to the serial output
  and changes nothing else, and it reads nothing of the state. Two calls with the same
  inputs therefore print the same elevation, azimuth, irradiance and offset. This holds
  for every width of \<open>int\<close>.
\<close>

theorem computeSolar_deterministic:
  "\<exists>out. \<forall>b. computeSolar int_bits lat lon year month day hour minute second tz_offset b =
      (case out of Inl f \<Rightarrow> Inl f | Inr items \<Rightarrow> Inr (b\<lparr>serial := serial b @ items\<rparr>))"
proof -
  let ?b0 = "\<lparr>serial = [], input = []\<rparr>"
  let ?out = "map_sum id serial
     (computeSolar int_bits lat lon year month day hour minute second tz_offset ?b0)"
  have "\<forall>b. computeSolar int_bits lat lon year month day hour minute second tz_offset b =
      (case ?out of Inl f \<Rightarrow> Inl f | Inr items \<Rightarrow> Inr (b\<lparr>serial := serial b @ items\<rparr>))"
    by (simp add: computeSolar_def Let_def split: sum.splits)
  then show ?thesis
    by (rule exI)
qed

theorem computeSolar_deterministic_witness:
  "\<exists>out. \<forall>b. computeSolar 32 latitude longitude 2025 6 13 22 14 0 (- 5) b =
      (case out of Inl f \<Rightarrow> Inl f | Inr items \<Rightarrow> Inr (b\<lparr>serial := serial b @ items\<rparr>))"
  using computeSolar_deterministic [of 32 latitude longitude 2025 6 13 22 14 0 "- 5"] by simp

subsection \<open>Faults\<close>

text \<open>
  C8. The claim: for every input with month in \<open>1..12\<close> and latitude and declination in
  their physical ranges, no operation of the core hits a runtime fault, so that the
  fault branches of the model are unreachable. They are reachable.

  \<^item> The line \<open>2025,1,1,35791395,0,0\<close> (January, so the offset is \<open>-6\<close>) makes
    \<open>hour * 60\<close> overflow a 32-bit \<open>int\<close> in \<open>getHourAngle\<close>; with a 16-bit \<open>int\<close> the hour
    547 does.
  \<^item> The argument of \<open>asin\<close> never leaves \<open>[-1, 1]\<close> in exact arithmetic
    (\<open>sin_elev_bounds\<close>), but the program rounds each product and sum to binary32 and
    can arrive at \<open>1 + 2\<^sup>-\<^sup>2\<^sup>3\<close>, the \<open>float\<close> next above 1, where \<open>asin\<close> has a domain
    error and the elevation printed is not a number.
\<close>

theorem computeSolar_fault_reachable:
  "computeSolar 32 latitude longitude 2025 1 1 35791395 0 0 (- 6) b = Inl IntegerOverflow
   \<and> computeSolar 16 latitude longitude 2025 1 1 547 0 0 (- 6) b = Inl IntegerOverflow
   \<and> asin (1 + 1 / 2 ^ 23) = Inl DomainError"
proof -
  have doy: "dayOfYear 2025 1 1 = Inr 1"
    by (simp add: dayOfYear_in_range dayOfYear_spec_def)
  have "getHourAngle 32 \<gamma> lon 35791395 0 0 (- 6) = Inl IntegerOverflow" for \<gamma> lon
    by (simp add: getHourAngle_def int_fits_def)
  moreover have "getHourAngle 16 \<gamma> lon 547 0 0 (- 6) = Inl IntegerOverflow" for \<gamma> lon
    by (simp add: getHourAngle_def int_fits_def)
  ultimately show ?thesis
    by (simp add: computeSolar_def doy Let_def asin_def)
qed

end
